theory Spec2Isabelle
  imports Complex_Main "HOL-Library.Sublist"
begin

section \<open>JavaScript values used by the routes\<close>

text \<open>
  A JavaScript number is a double: not-a-number, one of the two infinities, or a finite
  value, which is carried here as the rational it denotes. The routes only compare such
  numbers with \<open>200\<close>, truncate them and subtract integer timestamps, all of which are exact.
\<close>

datatype jsnum = NaN | NegInf | Num rat | PosInf

text \<open>\<^verbatim>\<open>Math.min(a, b)\<close>: not-a-number as soon as one argument is.\<close>

fun Math_min :: "jsnum \<Rightarrow> jsnum \<Rightarrow> jsnum" where
  "Math_min NaN b = NaN"
| "Math_min a NaN = NaN"
| "Math_min NegInf b = NegInf"
| "Math_min a NegInf = NegInf"
| "Math_min PosInf b = b"
| "Math_min a PosInf = a"
| "Math_min (Num a) (Num b) = Num (min a b)"

text \<open>Truncation towards zero, the finite case of the language's \<open>ToIntegerOrInfinity\<close>.\<close>

definition trunc :: "rat \<Rightarrow> int" where
  "trunc r = (if r < 0 then \<lceil>r\<rceil> else \<lfloor>r\<rfloor>)"

text \<open>
  \<^verbatim>\<open>xs.slice(0, end)\<close>: \<open>end\<close> is truncated (not-a-number counts as \<open>0\<close>), a negative
  \<open>end\<close> counts from the end of the array, and the result is clipped to the array.
\<close>

definition slice0 :: "'a list \<Rightarrow> jsnum \<Rightarrow> 'a list" where
  "slice0 xs e =
     (let len = int (length xs);
          final = (case e of
                     NaN \<Rightarrow> 0
                   | NegInf \<Rightarrow> 0
                   | PosInf \<Rightarrow> len
                   | Num r \<Rightarrow> (let rel = trunc r
                              in if rel < 0 then max (len + rel) 0 else min rel len))
      in take (nat final) xs)"

text \<open>
  A \<^verbatim>\<open>Set\<close> keeps its members in insertion order, each once: \<^verbatim>\<open>add\<close> of a member
  and \<^verbatim>\<open>delete\<close> of a non-member change nothing, and neither throws.
\<close>

definition Set_add :: "'a \<Rightarrow> 'a list \<Rightarrow> 'a list" where
  "Set_add x xs = (if x \<in> set xs then xs else xs @ [x])"

definition Set_delete :: "'a \<Rightarrow> 'a list \<Rightarrow> 'a list" where
  "Set_delete x xs = filter (\<lambda>y. y \<noteq> x) xs"

text \<open>A value is falsy, for the strings and missing values that occur here, when it is
  \<^verbatim>\<open>undefined\<close> or the empty string.\<close>

fun falsy :: "string option \<Rightarrow> bool" where
  "falsy None = True"
| "falsy (Some s) = (s = [])"

section \<open>In-memory store and live stream\<close>

text \<open>A stored payment; \<open>pay_method\<close> is its field \<^verbatim>\<open>method\<close>, \<open>ts\<close> is in milliseconds.\<close>

record payment =
  name :: string
  pay_method :: string
  amount :: rat
  ts :: int

text \<open>
  The state of the process: \<^verbatim>\<open>store.payments\<close>, the set \<^verbatim>\<open>sseClients\<close> of open
  stream responses, the responses whose \<^verbatim>\<open>keepAlive\<close> interval is armed, and what has
  been written to each response so far. A response object is an opaque handle \<open>'c\<close>.
\<close>

record 'c server =
  payments :: "payment list"
  sseClients :: "'c list"
  keepAlive :: "'c set"
  wire :: "('c \<times> string) list"

text \<open>
  The seed records of the store. Each reads the clock on its own while the module is
  loaded: \<open>t1\<close>, \<open>t2\<close> and \<open>t3\<close> are the three readings of \<^verbatim>\<open>Date.now()\<close>, in milliseconds.
\<close>

definition store0 :: "int \<Rightarrow> int \<Rightarrow> int \<Rightarrow> payment list" where
  "store0 t1 t2 t3 =
     [\<lparr>name = ''Priya N.'', pay_method = ''QR'', amount = 15, ts = t1 - 25 * 60000\<rparr>,
      \<lparr>name = ''Aman S.'', pay_method = ''Apple Pay'', amount = 15, ts = t2 - 55 * 60000\<rparr>,
      \<lparr>name = ''Neha R.'', pay_method = ''Bank Transfer'', amount = 20,
       ts = t3 - 90 * 60000\<rparr>]"

definition server0 :: "int \<Rightarrow> int \<Rightarrow> int \<Rightarrow> 'c server" where
  "server0 t1 t2 t3 = \<lparr>payments = store0 t1 t2 t3, sseClients = [], keepAlive = {}, wire = []\<rparr>"

subsection \<open>Writing to a response\<close>

text \<open>
  \<^verbatim>\<open>res.write(chunk)\<close> returns a boolean: \<^verbatim>\<open>false\<close> when the chunk was not handed to
  the transport at once, because it is buffered or because the stream is finished or
  destroyed and the chunk is discarded. That is how a write to a dead connection
  fails; for a string chunk it does not throw. \<open>Throws\<close> is kept for a write that
  would raise all the same, since the routes catch nothing. What a write does for each
  response is given from outside, as a function of the response.
\<close>

datatype write_outcome = Returns bool | Throws

datatype outcome = Done | Raised

definition sse_payload :: "string \<Rightarrow> string \<Rightarrow> string" where
  "sse_payload event json =
     ''event: '' @ event @ [CHR 0x0A] @ ''data: '' @ json @ [CHR 0x0A, CHR 0x0A]"

text \<open>
  The loop of \<^verbatim>\<open>broadcast\<close>: one write per member of the set, in the set's order. The
  boolean a write returns is ignored; a write that throws ends the loop, since nothing
  catches the exception.
\<close>

fun write_each ::
  "('c \<Rightarrow> write_outcome) \<Rightarrow> string \<Rightarrow> 'c list \<Rightarrow> ('c \<times> string) list
     \<Rightarrow> outcome \<times> ('c \<times> string) list" where
  "write_each w p [] out = (Done, out)"
| "write_each w p (c # cs) out =
     (case w c of
        Throws \<Rightarrow> (Raised, out)
      | Returns b \<Rightarrow> write_each w p cs (out @ [(c, p)]))"

text \<open>\<^verbatim>\<open>broadcast(event, data)\<close>; \<open>stringify\<close> stands for \<^verbatim>\<open>JSON.stringify\<close>.\<close>

definition broadcast ::
  "('d \<Rightarrow> string) \<Rightarrow> ('c \<Rightarrow> write_outcome) \<Rightarrow> string \<Rightarrow> 'd \<Rightarrow> 'c server
     \<Rightarrow> outcome \<times> 'c server" where
  "broadcast stringify w event data s =
     (let payload = sse_payload event (stringify data);
          (r, out) = write_each w payload (sseClients s) (wire s)
      in (r, s\<lparr>wire := out\<rparr>))"

text \<open>
  \<^verbatim>\<open>GET /api/payments/stream\<close> for the response \<open>c\<close>: the greeting is written, the
  response joins the set and its interval is armed. (The status line and headers of
  \<^verbatim>\<open>writeHead\<close> are not recorded.)
\<close>

definition hello :: string where
  "hello = ''event: hello'' @ [CHR 0x0A] @ ''data: \"connected\"'' @ [CHR 0x0A, CHR 0x0A]"

definition stream_open :: "('c \<Rightarrow> write_outcome) \<Rightarrow> 'c \<Rightarrow> 'c server \<Rightarrow> outcome \<times> 'c server" where
  "stream_open w c s =
     (case w c of
        Throws \<Rightarrow> (Raised, s)
      | Returns b \<Rightarrow>
          (Done, s\<lparr>wire := wire s @ [(c, hello)],
                   sseClients := Set_add c (sseClients s),
                   keepAlive := insert c (keepAlive s)\<rparr>))"

text \<open>One firing of the interval of \<open>c\<close>, if it is still armed.\<close>

definition ping :: string where
  "ping = '': ping'' @ [CHR 0x0A, CHR 0x0A]"

definition stream_tick :: "('c \<Rightarrow> write_outcome) \<Rightarrow> 'c \<Rightarrow> 'c server \<Rightarrow> outcome \<times> 'c server" where
  "stream_tick w c s =
     (if c \<in> keepAlive s
      then (case w c of
              Throws \<Rightarrow> (Raised, s)
            | Returns b \<Rightarrow> (Done, s\<lparr>wire := wire s @ [(c, ping)]\<rparr>))
      else (Done, s))"

text \<open>The \<^verbatim>\<open>close\<close> callback of the request behind \<open>c\<close>: the interval is cleared and the
  response leaves the set. Neither \<^verbatim>\<open>clearInterval\<close> nor \<^verbatim>\<open>Set.delete\<close> throws.\<close>

definition stream_close :: "'c \<Rightarrow> 'c server \<Rightarrow> 'c server" where
  "stream_close c s =
     s\<lparr>keepAlive := keepAlive s - {c}, sseClients := Set_delete c (sseClients s)\<rparr>"

subsection \<open>Payments\<close>

text \<open>
  The body of a payment submission, as far as \<^verbatim>\<open>paymentSchema\<close> looks at it: each of
  the three keys is missing or holds a value of its type, and \<open>other_keys\<close> lists the
  keys the schema does not know. The schema's messages are kept as tags naming the
  key; their wording belongs to the schema library.
\<close>

record payment_body =
  fullName :: "string option"
  req_method :: "string option"
  req_amount :: "rat option"
  other_keys :: "string list"

datatype violation =
  Required string | Empty string | TooShort string | TooLong string
  | NotOneOf string | Unsafe string | BelowMin string | AboveMax string
  | NotAllowed string

definition fullName_errors :: "string option \<Rightarrow> violation list" where
  "fullName_errors v =
     (case v of
        None \<Rightarrow> [Required ''fullName'']
      | Some s \<Rightarrow>
          if s = [] then [Empty ''fullName'']
          else if length s < 2 then [TooShort ''fullName'']
          else if 80 < length s then [TooLong ''fullName'']
          else [])"

definition method_errors :: "string option \<Rightarrow> violation list" where
  "method_errors v =
     (case v of
        None \<Rightarrow> [Required ''method'']
      | Some m \<Rightarrow>
          if m \<in> set [''QR'', ''Apple Pay'', ''Bank Transfer''] then []
          else if m = [] then [NotOneOf ''method'', Empty ''method'']
          else [NotOneOf ''method''])"

definition amount_errors :: "rat option \<Rightarrow> violation list" where
  "amount_errors v =
     (case v of
        None \<Rightarrow> [Required ''amount'']
      | Some a \<Rightarrow>
          if a < - 9007199254740991 \<or> 9007199254740991 < a then [Unsafe ''amount'']
          else if a < 1 then [BelowMin ''amount'']
          else if 5000 < a then [AboveMax ''amount'']
          else [])"

text \<open>\<^verbatim>\<open>paymentSchema.validate(body, { abortEarly: false })\<close>: every violation, or the value.\<close>

definition paymentSchema_validate :: "payment_body \<Rightarrow> violation list + string \<times> string \<times> rat" where
  "paymentSchema_validate b =
     (let errors = fullName_errors (fullName b) @ method_errors (req_method b)
                     @ amount_errors (req_amount b) @ map NotAllowed (other_keys b)
      in case (fullName b, req_method b, req_amount b) of
           (Some n, Some m, Some a) \<Rightarrow> if errors = [] then Inr (n, m, a) else Inl errors
         | _ \<Rightarrow> Inl errors)"

text \<open>
  What a route answers: a status with a body, or nothing of its own when an exception
  leaves the handler (the framework then answers for it).
\<close>

datatype 'b reply = Reply nat 'b | Uncaught

datatype payments_body =
  OkPayment payment | OkPayments "payment list" | Errors "violation list"

text \<open>\<^verbatim>\<open>POST /api/payments\<close>, with \<open>now\<close> the reading of \<^verbatim>\<open>Date.now()\<close>.\<close>

definition post_payments ::
  "(payment \<Rightarrow> string) \<Rightarrow> ('c \<Rightarrow> write_outcome) \<Rightarrow> int \<Rightarrow> payment_body \<Rightarrow> 'c server
     \<Rightarrow> payments_body reply \<times> 'c server" where
  "post_payments stringify w now body s =
     (case paymentSchema_validate body of
        Inl errors \<Rightarrow> (Reply 400 (Errors errors), s)
      | Inr (n, m, a) \<Rightarrow>
          (let entry = \<lparr>name = n, pay_method = m, amount = a, ts = now\<rparr>;
               s1 = s\<lparr>payments := payments s @ [entry]\<rparr>;
               (r, s2) = broadcast stringify w ''payment'' entry s1
           in case r of
                Raised \<Rightarrow> (Uncaught, s2)
              | Done \<Rightarrow> (Reply 200 (OkPayment entry), s2)))"

text \<open>
  \<^verbatim>\<open>[...store.payments].sort((a, b) => b.ts - a.ts)\<close>: a sorted copy. The language's
  sort is stable, and so is \<^const>\<open>sort_key\<close>; the comparator orders by falling \<open>ts\<close>.
\<close>

definition sort_ts_desc :: "payment list \<Rightarrow> payment list" where
  "sort_ts_desc ps = sort_key (\<lambda>p. - ts p) ps"

text \<open>
  \<^verbatim>\<open>req.query.limit || 25\<close> followed by \<^verbatim>\<open>Number\<close>: the parameter is missing or a
  string; \<open>toNumber\<close> stands for the language's conversion of a string to a number.
\<close>

definition limit_arg :: "(string \<Rightarrow> jsnum) \<Rightarrow> string option \<Rightarrow> jsnum" where
  "limit_arg toNumber q =
     (case q of
        None \<Rightarrow> Num 25
      | Some str \<Rightarrow> if str = [] then Num 25 else toNumber str)"

text \<open>Lines 127 and 128 of the route, from the converted number on.\<close>

definition recent :: "payment list \<Rightarrow> jsnum \<Rightarrow> payment list" where
  "recent ps n =
     (let limit = Math_min n (Num 200)
      in slice0 (sort_ts_desc ps) limit)"

text \<open>\<^verbatim>\<open>GET /api/payments\<close>. The store is read, never written.\<close>

definition get_payments ::
  "(string \<Rightarrow> jsnum) \<Rightarrow> string option \<Rightarrow> 'c server \<Rightarrow> payments_body reply \<times> 'c server" where
  "get_payments toNumber q s =
     (Reply 200 (OkPayments (recent (payments s) (limit_arg toNumber q))), s)"

text \<open>
  A conversion for the closed examples below. It agrees with the language's \<^verbatim>\<open>Number\<close>
  on the empty string and on strings of decimal digits with an optional minus sign
  (below \<open>2^53\<close>), and gives not-a-number elsewhere, as the language does for a string
  such as \<open>abc\<close>; white space, fractions, exponents, radix prefixes and \<open>Infinity\<close> are
  not covered. The routes take the conversion as a parameter, and the general
  theorems hold for every conversion.
\<close>

fun digits_value :: "string \<Rightarrow> nat \<Rightarrow> nat option" where
  "digits_value [] acc = Some acc"
| "digits_value (c # cs) acc =
     (if c \<in> set ''0123456789''
      then digits_value cs (10 * acc + (of_char c - 48))
      else None)"

definition Number_decimal :: "string \<Rightarrow> jsnum" where
  "Number_decimal s =
     (case s of
        [] \<Rightarrow> Num 0
      | c # cs \<Rightarrow>
          if c = CHR ''-'' \<and> cs \<noteq> []
          then (case digits_value cs 0 of None \<Rightarrow> NaN | Some n \<Rightarrow> Num (- of_nat n))
          else (case digits_value s 0 of None \<Rightarrow> NaN | Some n \<Rightarrow> Num (of_nat n)))"

section \<open>Merchant session validation\<close>

text \<open>
  The variables of \<^verbatim>\<open>process.env\<close> the route reads; each is missing or a string.
\<close>

record env =
  APPLE_PAY_ENABLED :: "string option"
  MERCHANT_ID :: "string option"
  MERCHANT_DOMAIN :: "string option"
  MERCHANT_DISPLAY_NAME :: "string option"
  MERCHANT_CERT_PATH :: "string option"

definition APPLE_ENABLED :: "env \<Rightarrow> bool" where
  "APPLE_ENABLED e = (APPLE_PAY_ENABLED e = Some ''true'')"

text \<open>
  The outbound request: the address taken from the caller, the four fields of the
  JSON payload, and the certificate and key of the agent. It is always a \<^verbatim>\<open>POST\<close>.
\<close>

record outbound =
  url :: string
  merchantIdentifier :: string
  displayName :: string
  initiative :: string
  initiativeContext :: string
  agent_cert :: string
  agent_key :: string

text \<open>
  What the route observes of the upstream response: its status, and what
  \<^verbatim>\<open>text()\<close> and \<^verbatim>\<open>json()\<close> resolve to. \<open>None\<close> is a rejected promise: the body
  could not be read or, for \<^verbatim>\<open>json()\<close>, is not JSON. \<open>'j\<close> is the type of parsed JSON.
\<close>

record 'j upstream =
  up_status :: nat
  up_text :: "string option"
  up_json :: "'j option"

definition up_ok :: "'j upstream \<Rightarrow> bool" where
  "up_ok r = (200 \<le> up_status r \<and> up_status r < 300)"

text \<open>
  The response object of a real upstream answer with status \<open>st\<close> and body \<open>body\<close> (\<open>None\<close>
  when the body cannot be read): \<^verbatim>\<open>text()\<close> resolves to the body and \<^verbatim>\<open>json()\<close> to
  the parse of that same body. \<open>JSON_parse\<close> stands for the language's \<^verbatim>\<open>JSON.parse\<close>,
  with \<open>None\<close> for its \<^verbatim>\<open>SyntaxError\<close>.
\<close>

definition fetched :: "(string \<Rightarrow> 'j option) \<Rightarrow> nat \<Rightarrow> string option \<Rightarrow> 'j upstream" where
  "fetched JSON_parse st body =
     \<lparr>up_status = st, up_text = body,
      up_json = (case body of None \<Rightarrow> None | Some t \<Rightarrow> JSON_parse t)\<rparr>"

text \<open>
  The request the route builds: \<^verbatim>\<open>payload\<close> with its fixed initiative, and an agent
  whose certificate and key are both the file's content.
\<close>

definition session_request :: "string \<Rightarrow> string \<Rightarrow> string \<Rightarrow> string \<Rightarrow> string \<Rightarrow> outbound" where
  "session_request u mid dn mdom cert =
     \<lparr>url = u, merchantIdentifier = mid, displayName = dn, initiative = ''web'',
      initiativeContext = mdom, agent_cert = cert, agent_key = cert\<rparr>"

text \<open>What the route does to the outside, in order.\<close>

datatype effect = ReadFile string | Fetch outbound | LogError

text \<open>
  The body handed to \<^verbatim>\<open>res.json\<close>: \<^verbatim>\<open>{ ok: false, error: msg }\<close>, or the parsed
  session object.
\<close>

datatype 'j session_body = Failure string | Session 'j

text \<open>
  The text \<^verbatim>\<open>res.json\<close> sends for a session reply: the serialisation of the value handed
  to it, with \<open>stringify\<close> for the language's \<^verbatim>\<open>JSON.stringify\<close>. (\<open>None\<close>: the reply is
  not a session.)
\<close>

fun sent_session :: "('j \<Rightarrow> string) \<Rightarrow> 'j session_body reply \<Rightarrow> string option" where
  "sent_session stringify (Reply st (Session j)) = Some (stringify j)"
| "sent_session stringify (Reply st (Failure msg)) = None"
| "sent_session stringify Uncaught = None"

abbreviation validation_failed :: "'j session_body reply" where
  "validation_failed \<equiv> Reply 500 (Failure ''Validation request failed.'')"

text \<open>
  \<^verbatim>\<open>POST /api/apple-pay/validate-session\<close>. \<open>readFileSync\<close> and \<open>fetch\<close> are the
  file system and the network: \<open>None\<close> is a thrown exception, which the \<^verbatim>\<open>catch\<close>
  block logs and answers. \<open>validationURL\<close> is the field of the request body.
\<close>

definition validate_session ::
  "env \<Rightarrow> (string \<Rightarrow> string option) \<Rightarrow> (outbound \<Rightarrow> 'j upstream option) \<Rightarrow> string option
     \<Rightarrow> 'j session_body reply \<times> effect list" where
  "validate_session e readFileSync fetch validationURL =
     (if \<not> APPLE_ENABLED e
      then (Reply 501 (Failure ''Apple Pay validation disabled on this server.''), [])
      else
        (case validationURL of
           None \<Rightarrow> (Reply 400 (Failure ''Missing validationURL''), [])
         | Some u \<Rightarrow>
             if u = [] then (Reply 400 (Failure ''Missing validationURL''), [])
             else if falsy (MERCHANT_ID e) \<or> falsy (MERCHANT_DOMAIN e)
                     \<or> falsy (MERCHANT_DISPLAY_NAME e) \<or> falsy (MERCHANT_CERT_PATH e)
             then (Reply 500 (Failure ''Merchant config missing.''), [])
             else
               (case (MERCHANT_ID e, MERCHANT_DOMAIN e, MERCHANT_DISPLAY_NAME e,
                      MERCHANT_CERT_PATH e) of
                  (Some mid, Some mdom, Some dn, Some path) \<Rightarrow>
                    (case readFileSync path of
                       None \<Rightarrow> (validation_failed, [ReadFile path, LogError])
                     | Some cert \<Rightarrow>
                         (let req = session_request u mid dn mdom cert
                          in case fetch req of
                               None \<Rightarrow> (validation_failed, [ReadFile path, Fetch req, LogError])
                             | Some appleRes \<Rightarrow>
                                 if \<not> up_ok appleRes
                                 then (case up_text appleRes of
                                         None \<Rightarrow>
                                           (validation_failed,
                                            [ReadFile path, Fetch req, LogError])
                                       | Some text \<Rightarrow>
                                           (Reply (up_status appleRes)
                                              (Failure (if text = [] then ''Apple error''
                                                        else text)),
                                            [ReadFile path, Fetch req]))
                                 else (case up_json appleRes of
                                         None \<Rightarrow>
                                           (validation_failed,
                                            [ReadFile path, Fetch req, LogError])
                                       | Some session \<Rightarrow>
                                           (Reply 200 (Session session),
                                            [ReadFile path, Fetch req]))))
                | _ \<Rightarrow> (Reply 500 (Failure ''Merchant config missing.''), []))))"

subsection \<open>Values for the closed examples\<close>

text \<open>A complete configuration, its certificate file, a request body and the request
  the route builds from them.\<close>

definition env_ok :: env where
  "env_ok = \<lparr>APPLE_PAY_ENABLED = Some ''true'', MERCHANT_ID = Some ''merchant.org.sasa'',
             MERCHANT_DOMAIN = Some ''sasa.example.org'', MERCHANT_DISPLAY_NAME = Some ''SASA'',
             MERCHANT_CERT_PATH = Some ''/etc/sasa/merchant.pem''\<rparr>"

definition disk_ok :: "string \<Rightarrow> string option" where
  "disk_ok path = (if path = ''/etc/sasa/merchant.pem'' then Some ''PEM'' else None)"

definition url_ok :: string where
  "url_ok = ''https://apple-pay-gateway.apple.com/paymentservices/startSession''"

definition req_ok :: outbound where
  "req_ok = session_request url_ok ''merchant.org.sasa'' ''SASA'' ''sasa.example.org'' ''PEM''"

text \<open>An upstream that answers the request above, and only it, with a given response.\<close>

definition upstream_says :: "'j upstream \<Rightarrow> outbound \<Rightarrow> 'j upstream option" where
  "upstream_says r req = (if req = req_ok then Some r else None)"

text \<open>
  A parser and a serialiser for the closed examples below, on JSON texts made of
  objects, arrays, strings of printable ASCII without escapes, \<open>true\<close>, \<open>false\<close> and
  \<open>null\<close>, where they agree with the language's \<^verbatim>\<open>JSON.parse\<close> and \<^verbatim>\<open>JSON.stringify\<close>
  as long as the keys of an object are distinct and none is a decimal number. Numbers
  and escapes are not covered (the parser gives \<open>None\<close>). The parser is bounded by a
  number of nested calls, taken as the length of the text. The route and the general
  theorems take the parser and the serialiser as parameters.
\<close>

datatype json = JNull | JBool bool | JString string | JArray "json list"
  | JObject "(string \<times> json) list"

definition ws :: "char \<Rightarrow> bool" where
  "ws c = (c \<in> set [CHR '' '', CHR 0x09, CHR 0x0A, CHR 0x0D])"

definition plain :: "char \<Rightarrow> bool" where
  "plain c = (32 \<le> (of_char c :: nat) \<and> (of_char c :: nat) < 127 \<and> c \<noteq> CHR 0x22
              \<and> c \<noteq> CHR 0x5C)"

text \<open>The rest of a string after its opening quote, and what follows the closing one.\<close>

definition string_rest :: "string \<Rightarrow> (string \<times> string) option" where
  "string_rest s =
     (case dropWhile plain s of
        [] \<Rightarrow> None
      | c # r \<Rightarrow> if c = CHR 0x22 then Some (takeWhile plain s, r) else None)"

fun value_sample :: "nat \<Rightarrow> string \<Rightarrow> (json \<times> string) option"
  and elements_sample :: "nat \<Rightarrow> string \<Rightarrow> json list \<Rightarrow> (json \<times> string) option"
  and members_sample :: "nat \<Rightarrow> string \<Rightarrow> (string \<times> json) list \<Rightarrow> (json \<times> string) option"
  where
  "value_sample 0 s = None"
| "value_sample (Suc n) s =
     (case dropWhile ws s of
        [] \<Rightarrow> None
      | c # r \<Rightarrow>
          if c = CHR 0x7B
          then (case dropWhile ws r of
                  [] \<Rightarrow> None
                | c' # r' \<Rightarrow> if c' = CHR 0x7D then Some (JObject [], r')
                            else members_sample n r [])
          else if c = CHR 0x5B
          then (case dropWhile ws r of
                  [] \<Rightarrow> None
                | c' # r' \<Rightarrow> if c' = CHR 0x5D then Some (JArray [], r')
                            else elements_sample n r [])
          else if c = CHR 0x22
          then (case string_rest r of
                  None \<Rightarrow> None
                | Some (k, r') \<Rightarrow> Some (JString k, r'))
          else if take 4 (c # r) = ''true'' then Some (JBool True, drop 3 r)
          else if take 5 (c # r) = ''false'' then Some (JBool False, drop 4 r)
          else if take 4 (c # r) = ''null'' then Some (JNull, drop 3 r)
          else None)"
| "elements_sample 0 s acc = None"
| "elements_sample (Suc n) s acc =
     (case value_sample n s of
        None \<Rightarrow> None
      | Some (v, r) \<Rightarrow>
          (case dropWhile ws r of
             [] \<Rightarrow> None
           | c # r' \<Rightarrow>
               if c = CHR 0x2C then elements_sample n r' (acc @ [v])
               else if c = CHR 0x5D then Some (JArray (acc @ [v]), r')
               else None))"
| "members_sample 0 s acc = None"
| "members_sample (Suc n) s acc =
     (case dropWhile ws s of
        [] \<Rightarrow> None
      | c # r \<Rightarrow>
          if c \<noteq> CHR 0x22 then None
          else
            (case string_rest r of
               None \<Rightarrow> None
             | Some (k, r1) \<Rightarrow>
                 (case dropWhile ws r1 of
                    [] \<Rightarrow> None
                  | c1 # r2 \<Rightarrow>
                      if c1 \<noteq> CHR 0x3A then None
                      else
                        (case value_sample n r2 of
                           None \<Rightarrow> None
                         | Some (v, r3) \<Rightarrow>
                             (case dropWhile ws r3 of
                                [] \<Rightarrow> None
                              | c3 # r4 \<Rightarrow>
                                  if c3 = CHR 0x2C then members_sample n r4 (acc @ [(k, v)])
                                  else if c3 = CHR 0x7D
                                  then Some (JObject (acc @ [(k, v)]), r4)
                                  else None)))))"

definition JSON_parse_sample :: "string \<Rightarrow> json option" where
  "JSON_parse_sample s =
     (case value_sample (Suc (length s)) s of
        None \<Rightarrow> None
      | Some (j, r) \<Rightarrow> if dropWhile ws r = [] then Some j else None)"

fun commas :: "string list \<Rightarrow> string" where
  "commas [] = []"
| "commas [x] = x"
| "commas (x # y # ys) = x @ '','' @ commas (y # ys)"

definition quoted :: "string \<Rightarrow> string" where
  "quoted s = [CHR 0x22] @ s @ [CHR 0x22]"

primrec JSON_stringify_sample :: "json \<Rightarrow> string" where
  "JSON_stringify_sample JNull = ''null''"
| "JSON_stringify_sample (JBool b) = (if b then ''true'' else ''false'')"
| "JSON_stringify_sample (JString s) = quoted s"
| "JSON_stringify_sample (JArray xs) =
     ''['' @ commas (map JSON_stringify_sample xs) @ '']''"
| "JSON_stringify_sample (JObject kvs) =
     [CHR 0x7B]
     @ commas (map (\<lambda>(k, t). quoted k @ '':'' @ t)
                 (map (map_prod id JSON_stringify_sample) kvs))
     @ [CHR 0x7D]"

text \<open>The seed records of a process whose clock read \<open>5400000\<close>, \<open>5400000\<close> and \<open>5400001\<close>
  while it started, the process as it starts, and the same with three open streams.\<close>

definition seeds :: "payment list" where
  "seeds = store0 5400000 5400000 5400001"

definition started :: "nat server" where
  "started = server0 5400000 5400000 5400001"


definition hub3 :: "nat server" where
  "hub3 = \<lparr>payments = seeds, sseClients = [1, 2, 3], keepAlive = {1, 2, 3},
           wire = []\<rparr>"

text \<open>Two well-formed submissions.\<close>

definition body_A :: payment_body where
  "body_A = \<lparr>fullName = Some ''Asha K.'', req_method = Some ''QR'', req_amount = Some 15,
              other_keys = []\<rparr>"

definition body_B :: payment_body where
  "body_B = \<lparr>fullName = Some ''Bilal M.'', req_method = Some ''QR'', req_amount = Some 20,
              other_keys = []\<rparr>"

definition entry_A :: "int \<Rightarrow> payment" where
  "entry_A now = \<lparr>name = ''Asha K.'', pay_method = ''QR'', amount = 15, ts = now\<rparr>"

definition entry_B :: "int \<Rightarrow> payment" where
  "entry_B now = \<lparr>name = ''Bilal M.'', pay_method = ''QR'', amount = 20, ts = now\<rparr>"

text \<open>A ledger of two hundred records, all stamped \<open>6000000\<close>.\<close>

definition ledger200 :: "nat server" where
  "ledger200 = \<lparr>payments = replicate 200 (entry_A 6000000), sseClients = [], keepAlive = {},
               wire = []\<rparr>"

section \<open>The live stream\<close>

lemma Set_delete_absent: "c \<notin> set xs \<Longrightarrow> Set_delete c xs = xs"
  by (induction xs) (auto simp: Set_delete_def)

lemma Set_delete_twice: "Set_delete c (Set_delete c xs) = Set_delete c xs"
  by (simp add: Set_delete_def)






text \<open>
  C9. The \<^verbatim>\<open>close\<close> callback is idempotent: running it a second time for the same
  response changes nothing more, and running it for a response that is neither in the
  set nor has an armed interval changes nothing at all. It has no failing branch.
\<close>

theorem stream_close_idempotent:
  "stream_close c (stream_close c s) = stream_close c s \<and>
   (c \<notin> set (sseClients s) \<and> c \<notin> keepAlive s \<longrightarrow> stream_close c s = s)"
  by (auto simp: stream_close_def Set_delete_absent Set_delete_twice)

theorem stream_close_idempotent_witness:
  "stream_close 2 (stream_close 2 hub3) = stream_close 2 hub3 \<and>
   sseClients (stream_close 2 hub3) = [1, 3] \<and>
   4 \<notin> set (sseClients hub3) \<and> 4 \<notin> keepAlive hub3 \<and> stream_close 4 hub3 = hub3"
  using stream_close_idempotent [of 2 hub3] stream_close_idempotent [of 4 hub3]
  by (simp add: hub3_def stream_close_def Set_delete_def)

section \<open>The ledger\<close>

lemma slice0_take: "\<exists>k. slice0 xs e = take k xs"
  by (auto simp: slice0_def Let_def)

lemma recent_take: "\<exists>k. recent ps n = take k (sort_ts_desc ps)"
  by (simp add: recent_def slice0_take)

lemma sort_ts_desc_falling: "sorted_wrt (\<lambda>a b. ts b \<le> ts a) (sort_ts_desc ps)"
proof -
  have "sorted (map (\<lambda>p. - ts p) (sort_ts_desc ps))"
    by (simp add: sort_ts_desc_def)
  then show ?thesis by (simp add: sorted_map)
qed

lemma sort_ts_desc_stable:
  "filter (\<lambda>p. ts p = k) (sort_ts_desc ps) = filter (\<lambda>p. ts p = k) ps"
proof -
  have "filter (\<lambda>p. - ts p = - k) (sort_key (\<lambda>p. - ts p) ps) = filter (\<lambda>p. - ts p = - k) ps"
    by (rule sort_key_stable)
  then show ?thesis by (simp add: sort_ts_desc_def)
qed

lemma recent_falling: "sorted_wrt (\<lambda>a b. ts b \<le> ts a) (recent ps n)"
proof -
  obtain k where "recent ps n = take k (sort_ts_desc ps)" using recent_take by blast
  then show ?thesis by (simp add: sort_ts_desc_falling)
qed

lemma recent_ties: "prefix (filter (\<lambda>p. ts p = k) (recent ps n)) (filter (\<lambda>p. ts p = k) ps)"
proof -
  obtain j where "recent ps n = take j (sort_ts_desc ps)" using recent_take by blast
  then have "prefix (recent ps n) (sort_ts_desc ps)" by (simp add: take_is_prefix)
  then have "prefix (filter (\<lambda>p. ts p = k) (recent ps n))
                    (filter (\<lambda>p. ts p = k) (sort_ts_desc ps))"
    by (rule filter_mono_prefix)
  then show ?thesis by (simp add: sort_ts_desc_stable)
qed

lemma recent_PosInf: "recent ps PosInf = take 200 (sort_ts_desc ps)"
  by (simp add: recent_def slice0_def trunc_def sort_ts_desc_def min_def)

lemma recent_NaN: "recent ps NaN = []"
  by (simp add: recent_def slice0_def)

lemma recent_25: "recent ps (Num 25) = take 25 (sort_ts_desc ps)"
  by (simp add: recent_def slice0_def trunc_def sort_ts_desc_def min_def)

lemma recent_Num_length:
  assumes "0 \<le> r"
  shows "of_nat (length (recent ps (Num r))) \<le> min r 200"
proof -
  let ?m = "min r 200"
  have m0: "0 \<le> ?m" using assms by simp
  then have "\<not> ?m < 0" by linarith
  then have t: "trunc ?m = \<lfloor>?m\<rfloor>" by (simp only: trunc_def if_False)
  have f0: "0 \<le> \<lfloor>?m\<rfloor>" using m0 by simp
  have "recent ps (Num r) = take (nat (min \<lfloor>?m\<rfloor> (int (length ps)))) (sort_ts_desc ps)"
    using f0 by (simp add: recent_def slice0_def t sort_ts_desc_def Let_def)
  then have "length (recent ps (Num r)) \<le> nat \<lfloor>?m\<rfloor>"
    by (simp add: sort_ts_desc_def)
  then have "(of_nat (length (recent ps (Num r))) :: rat) \<le> of_nat (nat \<lfloor>?m\<rfloor>)"
    by (simp only: of_nat_le_iff)
  also have "\<dots> = of_int \<lfloor>?m\<rfloor>" using f0 by simp
  also have "\<dots> \<le> ?m" by (rule of_int_floor_le)
  finally show ?thesis .
qed

text \<open>
  C2 (as amended). Whatever the limit, the records \<^verbatim>\<open>GET /api/payments\<close> returns are in
  falling order of timestamp, equal timestamps allowed, and those of one timestamp
  are the first of that timestamp in the store, in the order in which they were
  appended (earlier first). A limit of infinity gives at most \<open>200\<close> records and a
  finite limit \<open>r \<ge> 0\<close> at most \<open>min r 200\<close>.
\<close>

theorem recent_falling_stable_bounded:
  "sorted_wrt (\<lambda>a b. ts b \<le> ts a) (recent ps n) \<and>
   prefix (filter (\<lambda>p. ts p = k) (recent ps n)) (filter (\<lambda>p. ts p = k) ps) \<and>
   length (recent ps PosInf) \<le> 200 \<and>
   (0 \<le> r \<longrightarrow> of_nat (length (recent ps (Num r))) \<le> min r 200)"
  using recent_falling [of ps n] recent_ties [of k ps n] recent_Num_length [of r ps]
  by (simp add: recent_PosInf)

theorem recent_falling_stable_bounded_witness:
  "(0 :: rat) \<le> 5 / 2 \<and>
   of_nat (length (recent (payments hub3) (Num (5 / 2)))) \<le> min (5 / 2 :: rat) 200 \<and>
   sorted_wrt (\<lambda>a b. ts b \<le> ts a) (recent (payments hub3) (Num (5 / 2))) \<and>
   prefix (filter (\<lambda>p. ts p = 2100000) (recent (payments hub3) (Num (5 / 2))))
          (filter (\<lambda>p. ts p = 2100000) (payments hub3))"
  using recent_falling_stable_bounded [of "payments hub3" "Num (5 / 2)" 2100000 "5 / 2"]
  by simp

text \<open>
  C2 as stated fails twice. Two submissions accepted in the same millisecond are
  listed with the earlier one first, not the later one, and their timestamps do not
  fall strictly. And a limit of \<open>-1\<close> lists two of the three seed records, more than
  \<open>min (-1) 200\<close>.
\<close>

theorem recent_counterexample:
  "fst (get_payments Number_decimal None
          (snd (post_payments (\<lambda>p. ''{}'') (\<lambda>c. Returns True) 6000000 body_B
             (snd (post_payments (\<lambda>p. ''{}'') (\<lambda>c. Returns True) 6000000 body_A
                started)))))
     = Reply 200 (OkPayments ([entry_A 6000000, entry_B 6000000] @ seeds))
   \<and> fst (get_payments Number_decimal (Some ''-1'') started)
     = Reply 200 (OkPayments (take 2 seeds))"
  by (simp add: get_payments_def post_payments_def paymentSchema_validate_def
      fullName_errors_def method_errors_def amount_errors_def broadcast_def server0_def
      started_def seeds_def store0_def body_A_def body_B_def entry_A_def entry_B_def limit_arg_def
      Number_decimal_def recent_def slice0_def trunc_def ceiling_minus sort_ts_desc_def
      Let_def)


lemma broadcast_payments: "payments (snd (broadcast stringify w event data s)) = payments s"
  by (simp add: broadcast_def Let_def split: prod.splits)

lemma post_payments_valid:
  assumes "paymentSchema_validate body = Inr (n, m, a)"
  shows "payments (snd (post_payments stringify w now body s)) =
           payments s @ [\<lparr>name = n, pay_method = m, amount = a, ts = now\<rparr>]"
proof -
  let ?e = "\<lparr>name = n, pay_method = m, amount = a, ts = now\<rparr>"
  let ?s1 = "s\<lparr>payments := payments s @ [?e]\<rparr>"
  obtain r s2 where b: "broadcast stringify w ''payment'' ?e ?s1 = (r, s2)"
    by (cases "broadcast stringify w ''payment'' ?e ?s1") auto
  then have "payments s2 = payments ?s1"
    using broadcast_payments [of stringify w "''payment''" ?e ?s1] by simp
  moreover have "snd (post_payments stringify w now body s) = s2"
    using assms b by (cases r) (simp_all add: post_payments_def)
  ultimately show ?thesis by simp
qed

lemma post_payments_invalid:
  "paymentSchema_validate body = Inl errors \<Longrightarrow>
   post_payments stringify w now body s = (Reply 400 (Errors errors), s)"
  by (simp add: post_payments_def)

lemma post_payments_prefix:
  "prefix (payments s) (payments (snd (post_payments stringify w now body s)))"
proof (cases "paymentSchema_validate body")
  case (Inl errors)
  then show ?thesis by (simp add: post_payments_invalid)
next
  case (Inr v)
  obtain n m a where "v = (n, m, a)" by (cases v) auto
  with Inr show ?thesis by (simp add: post_payments_valid)
qed

lemma filter_le_takeWhile:
  "sorted (map f ys) \<Longrightarrow> filter (\<lambda>y. f y \<le> (k::int)) ys = takeWhile (\<lambda>y. f y \<le> k) ys"
proof (induction ys)
  case Nil
  then show ?case by simp
next
  case (Cons y ys)
  show ?case
  proof (cases "f y \<le> k")
    case True
    with Cons show ?thesis by simp
  next
    case False
    with Cons.prems have "\<forall>z\<in>set ys. \<not> f z \<le> k" by auto
    then have "filter (\<lambda>y. f y \<le> k) ys = []" by (simp add: filter_empty_conv)
    with False show ?thesis by simp
  qed
qed

lemma length_filter_sort_key:
  "length (filter P (sort_key f xs)) = length (filter P xs)"
proof -
  have "filter P (sort_key f xs) = sort_key f (filter P xs)" by (rule filter_sort)
  then show ?thesis by simp
qed

lemma newest_in_recent:
  assumes "length (filter (\<lambda>p. ts x \<le> ts p) ps) < 200"
  shows "x \<in> set (recent (ps @ [x]) PosInf)"
proof -
  let ?ys = "sort_ts_desc (ps @ [x])"
  let ?P = "\<lambda>p. - ts p \<le> - ts x"
  have srt: "sorted (map (\<lambda>p. - ts p) ?ys)" by (simp add: sort_ts_desc_def)
  have "x \<in> set ?ys" by (simp add: sort_ts_desc_def)
  then have mem: "x \<in> set (filter ?P ?ys)" by simp
  have fw: "filter ?P ?ys = takeWhile ?P ?ys" using srt by (rule filter_le_takeWhile)
  have pre: "filter ?P ?ys = take (length (filter ?P ?ys)) ?ys"
    unfolding fw by (rule takeWhile_eq_take)
  have "length (filter ?P ?ys) = length (filter ?P (ps @ [x]))"
    by (simp only: sort_ts_desc_def length_filter_sort_key)
  also have "\<dots> = Suc (length (filter (\<lambda>p. ts x \<le> ts p) ps))" by simp
  finally have "length (filter ?P ?ys) \<le> 200" using assms by simp
  then have "set (take (length (filter ?P ?ys)) ?ys) \<subseteq> set (take 200 ?ys)"
    by (rule set_take_subset_set_take)
  with mem pre have "x \<in> set (take 200 ?ys)" by auto
  then show ?thesis by (simp add: recent_PosInf)
qed

text \<open>
  C8 (as amended). Listing leaves the state as it was. No route removes or reorders a
  stored record: after a submission the old store is an initial segment of the new
  one, and the stream routes leave the store alone. A submission that passes the
  schema adds exactly its record, at the end, so the count grows by one. The new
  record is in the listing with limit infinity provided fewer than \<open>200\<close> of the records
  already stored carry a timestamp at or above its own.
\<close>

theorem ledger_append_only:
  "snd (get_payments toNumber q s) = s \<and>
   prefix (payments s) (payments (snd (post_payments stringify w now body s))) \<and>
   payments (snd (stream_open w c s)) = payments s \<and>
   payments (snd (stream_tick w c s)) = payments s \<and>
   payments (stream_close c s) = payments s \<and>
   payments (snd (broadcast stringify w event data s)) = payments s \<and>
   (paymentSchema_validate body = Inr (n, m, a) \<longrightarrow>
      payments (snd (post_payments stringify w now body s)) =
        payments s @ [\<lparr>name = n, pay_method = m, amount = a, ts = now\<rparr>] \<and>
      length (payments (snd (post_payments stringify w now body s))) =
        length (payments s) + 1 \<and>
      (length (filter (\<lambda>p. now \<le> ts p) (payments s)) < 200 \<longrightarrow>
         \<lparr>name = n, pay_method = m, amount = a, ts = now\<rparr>
           \<in> set (recent (payments (snd (post_payments stringify w now body s))) PosInf)))"
proof -
  have 1: "snd (get_payments toNumber q s) = s" by (simp add: get_payments_def)
  have 2: "payments (snd (stream_open w c s)) = payments s"
    by (simp add: stream_open_def split: write_outcome.splits)
  have 3: "payments (snd (stream_tick w c s)) = payments s"
    by (simp add: stream_tick_def split: write_outcome.splits)
  have 4: "payments (stream_close c s) = payments s" by (simp add: stream_close_def)
  have 5: "paymentSchema_validate body = Inr (n, m, a) \<Longrightarrow>
      length (filter (\<lambda>p. now \<le> ts p) (payments s)) < 200 \<Longrightarrow>
         \<lparr>name = n, pay_method = m, amount = a, ts = now\<rparr>
           \<in> set (recent (payments (snd (post_payments stringify w now body s))) PosInf)"
    using newest_in_recent [of "\<lparr>name = n, pay_method = m, amount = a, ts = now\<rparr>" "payments s"]
    by (simp add: post_payments_valid)
  show ?thesis
    using 1 2 3 4 5 post_payments_prefix [of s stringify w now body]
      broadcast_payments [of stringify w event data s]
    by (simp add: post_payments_valid)
qed

theorem ledger_append_only_witness:
  "paymentSchema_validate body_A = Inr (''Asha K.'', ''QR'', 15) \<and>
   length (filter (\<lambda>p. 6000000 \<le> ts p) (payments hub3)) < 200 \<and>
   payments (snd (post_payments (\<lambda>p. ''{}'') (\<lambda>c. Returns True) 6000000 body_A hub3)) =
     payments hub3 @ [entry_A 6000000] \<and>
   length (payments (snd (post_payments (\<lambda>p. ''{}'') (\<lambda>c. Returns True) 6000000 body_A hub3)))
     = length (payments hub3) + 1 \<and>
   entry_A 6000000 \<in> set (recent (payments
       (snd (post_payments (\<lambda>p. ''{}'') (\<lambda>c. Returns True) 6000000 body_A hub3))) PosInf) \<and>
   snd (get_payments Number_decimal None hub3) = hub3"
proof -
  have v: "paymentSchema_validate body_A = Inr (''Asha K.'', ''QR'', 15)"
    by (simp add: paymentSchema_validate_def body_A_def fullName_errors_def method_errors_def
        amount_errors_def)
  have l: "length (filter (\<lambda>p. 6000000 \<le> ts p) (payments hub3)) < 200"
    by (simp add: hub3_def seeds_def store0_def)
  show ?thesis
    using v l ledger_append_only [of Number_decimal None hub3 "\<lambda>p. ''{}''" "\<lambda>c. Returns True"
        6000000 body_A 1 "''payment''" "entry_A 6000000" "''Asha K.''" "''QR''" 15]
    by (auto simp: entry_A_def)
qed

text \<open>
  C8 as stated fails: with two hundred records stamped \<open>6000000\<close> in the store, a
  submission accepted when the clock reads \<open>5999000\<close> is stored, but the listing with
  limit infinity holds the two hundred older records and not the new one.
\<close>

theorem ledger_counterexample:
  "payments (snd (post_payments (\<lambda>p. ''{}'') (\<lambda>c. Returns True) 5999000 body_B ledger200))
     = payments ledger200 @ [entry_B 5999000]
   \<and> recent (payments
        (snd (post_payments (\<lambda>p. ''{}'') (\<lambda>c. Returns True) 5999000 body_B ledger200))) PosInf
     = replicate 200 (entry_A 6000000)
   \<and> entry_B 5999000 \<notin> set (replicate 200 (entry_A 6000000))"
proof -
  have v: "paymentSchema_validate body_B = Inr (''Bilal M.'', ''QR'', 20)"
    by (simp add: paymentSchema_validate_def body_B_def fullName_errors_def method_errors_def
        amount_errors_def)
  have p: "payments (snd (post_payments (\<lambda>p. ''{}'') (\<lambda>c. Returns True) 5999000 body_B ledger200))
      = replicate 200 (entry_A 6000000) @ [entry_B 5999000]"
    using post_payments_valid [OF v, of "\<lambda>p. ''{}''" "\<lambda>c. Returns True" 5999000 ledger200]
    by (simp add: ledger200_def entry_B_def)
  have "sorted (map (\<lambda>p. - ts p) (replicate 200 (entry_A 6000000) @ [entry_B 5999000]))"
    by (simp add: sorted_append entry_A_def entry_B_def)
  then have "sort_ts_desc (replicate 200 (entry_A 6000000) @ [entry_B 5999000])
      = replicate 200 (entry_A 6000000) @ [entry_B 5999000]"
    unfolding sort_ts_desc_def by (rule sort_key_id_if_sorted)
  then have r: "recent (replicate 200 (entry_A 6000000) @ [entry_B 5999000]) PosInf
      = replicate 200 (entry_A 6000000)"
    by (simp add: recent_PosInf)
  have n: "entry_B 5999000 \<notin> set (replicate 200 (entry_A 6000000))"
    by (simp add: entry_A_def entry_B_def)
  show ?thesis using p r n by (simp add: ledger200_def)
qed

text \<open>
  C10. Without a \<^verbatim>\<open>limit\<close> parameter the limit is \<open>25\<close>: the listing holds the first \<open>25\<close>
  records of the sorted store. With a parameter that is a non-empty string which the
  conversion turns into not-a-number, the listing is empty, whatever the store
  holds. (The language converts the empty string to \<open>0\<close>, never to not-a-number.)
\<close>

theorem limit_default_and_NaN:
  "Math_min (limit_arg toNumber None) (Num 200) = Num 25 \<and>
   get_payments toNumber None s =
     (Reply 200 (OkPayments (take 25 (sort_ts_desc (payments s)))), s) \<and>
   (str \<noteq> [] \<and> toNumber str = NaN \<longrightarrow>
      Math_min (limit_arg toNumber (Some str)) (Num 200) = NaN \<and>
      get_payments toNumber (Some str) s = (Reply 200 (OkPayments []), s))"
  by (simp add: limit_arg_def get_payments_def recent_25 recent_NaN)

theorem limit_default_and_NaN_witness:
  "''abc'' \<noteq> [] \<and> Number_decimal ''abc'' = NaN \<and>
   get_payments Number_decimal (Some ''abc'') hub3 = (Reply 200 (OkPayments []), hub3) \<and>
   get_payments Number_decimal None hub3 = (Reply 200 (OkPayments seeds), hub3)"
proof -
  have n: "Number_decimal ''abc'' = NaN" by (simp add: Number_decimal_def)
  have t: "take 25 (sort_ts_desc (payments hub3)) = seeds"
    by (simp add: hub3_def seeds_def store0_def sort_ts_desc_def)
  show ?thesis
    using n t limit_default_and_NaN [of Number_decimal hub3 "''abc''"] by simp
qed

section \<open>Merchant session validation\<close>

text \<open>The route on the example configuration, once the upstream has answered.\<close>

lemma validate_session_example:
  "validate_session env_ok disk_ok (upstream_says r) (Some url_ok) =
     (if \<not> up_ok r
      then (case up_text r of
              None \<Rightarrow> (validation_failed,
                        [ReadFile ''/etc/sasa/merchant.pem'', Fetch req_ok, LogError])
            | Some t \<Rightarrow> (Reply (up_status r) (Failure (if t = [] then ''Apple error'' else t)),
                         [ReadFile ''/etc/sasa/merchant.pem'', Fetch req_ok]))
      else (case up_json r of
              None \<Rightarrow> (validation_failed,
                        [ReadFile ''/etc/sasa/merchant.pem'', Fetch req_ok, LogError])
            | Some j \<Rightarrow> (Reply 200 (Session j),
                         [ReadFile ''/etc/sasa/merchant.pem'', Fetch req_ok])))"
  by (simp add: validate_session_def env_ok_def disk_ok_def APPLE_ENABLED_def url_ok_def
      req_ok_def upstream_says_def Let_def split: option.splits)

text \<open>
  C3 (as amended). In the validating state, when the upstream answers with a status
  outside \<open>200..299\<close> and its body can be read as text, the caller gets that same status
  and the failure envelope whose \<open>error\<close> is that text, unless the text is empty: then
  \<open>error\<close> is the fixed string \<open>Apple error\<close>.
\<close>

theorem upstream_failure_relayed:
  assumes "APPLE_ENABLED e" and "u \<noteq> []"
    and "MERCHANT_ID e = Some mid" and "mid \<noteq> []"
    and "MERCHANT_DOMAIN e = Some mdom" and "mdom \<noteq> []"
    and "MERCHANT_DISPLAY_NAME e = Some dn" and "dn \<noteq> []"
    and "MERCHANT_CERT_PATH e = Some path" and "path \<noteq> []"
    and "readFileSync path = Some cert"
    and "fetch (session_request u mid dn mdom cert) = Some appleRes"
    and "\<not> up_ok appleRes" and "up_text appleRes = Some t"
  shows "fst (validate_session e readFileSync fetch (Some u)) =
           Reply (up_status appleRes) (Failure (if t = [] then ''Apple error'' else t))"
  using assms by (simp add: validate_session_def Let_def)

theorem upstream_failure_relayed_witness:
  "APPLE_ENABLED env_ok \<and> url_ok \<noteq> [] \<and>
   MERCHANT_ID env_ok = Some ''merchant.org.sasa'' \<and>
   MERCHANT_DOMAIN env_ok = Some ''sasa.example.org'' \<and>
   MERCHANT_DISPLAY_NAME env_ok = Some ''SASA'' \<and>
   MERCHANT_CERT_PATH env_ok = Some ''/etc/sasa/merchant.pem'' \<and>
   disk_ok ''/etc/sasa/merchant.pem'' = Some ''PEM'' \<and>
   upstream_says \<lparr>up_status = 403, up_text = Some ''Forbidden'', up_json = None :: unit option\<rparr>
     req_ok
     = Some \<lparr>up_status = 403, up_text = Some ''Forbidden'', up_json = None\<rparr> \<and>
   \<not> up_ok \<lparr>up_status = 403, up_text = Some ''Forbidden'', up_json = None :: unit option\<rparr> \<and>
   fst (validate_session env_ok disk_ok
          (upstream_says
             \<lparr>up_status = 403, up_text = Some ''Forbidden'', up_json = None :: unit option\<rparr>)
          (Some url_ok))
     = Reply 403 (Failure ''Forbidden'')"
proof -
  let ?r = "\<lparr>up_status = 403, up_text = Some ''Forbidden'', up_json = None :: unit option\<rparr>"
  have h1: "APPLE_ENABLED env_ok" by (simp add: APPLE_ENABLED_def env_ok_def)
  have h2: "url_ok \<noteq> []" by (simp add: url_ok_def)
  have h3: "MERCHANT_ID env_ok = Some ''merchant.org.sasa''" by (simp add: env_ok_def)
  have h4: "MERCHANT_DOMAIN env_ok = Some ''sasa.example.org''" by (simp add: env_ok_def)
  have h5: "MERCHANT_DISPLAY_NAME env_ok = Some ''SASA''" by (simp add: env_ok_def)
  have h6: "MERCHANT_CERT_PATH env_ok = Some ''/etc/sasa/merchant.pem''"
    by (simp add: env_ok_def)
  have h7: "disk_ok ''/etc/sasa/merchant.pem'' = Some ''PEM''" by (simp add: disk_ok_def)
  have h8: "upstream_says ?r
              (session_request url_ok ''merchant.org.sasa'' ''SASA'' ''sasa.example.org'' ''PEM'')
            = Some ?r"
    by (simp add: upstream_says_def req_ok_def)
  have h9: "\<not> up_ok ?r" by (simp add: up_ok_def)
  have h10: "up_text ?r = Some ''Forbidden''" by simp
  have "fst (validate_session env_ok disk_ok (upstream_says ?r) (Some url_ok))
          = Reply 403 (Failure ''Forbidden'')"
    using h1 h2 h3 h4 h5 h6 h7 h8 h9 h10
      upstream_failure_relayed [where e = env_ok and u = url_ok and mid = "''merchant.org.sasa''"
        and mdom = "''sasa.example.org''" and dn = "''SASA''"
        and path = "''/etc/sasa/merchant.pem''" and readFileSync = disk_ok and cert = "''PEM''"
        and fetch = "upstream_says ?r" and appleRes = ?r and t = "''Forbidden''"]
    by simp
  with h1 h2 h3 h4 h5 h6 h7 h8 h9 show ?thesis by (simp add: req_ok_def)
qed

text \<open>
  C3 as stated fails: an upstream answer \<open>500\<close> with an empty body reaches the caller
  as \<open>500\<close> with the error text \<open>Apple error\<close>, which the upstream never sent.
\<close>

theorem upstream_failure_counterexample:
  "validate_session env_ok disk_ok
     (upstream_says \<lparr>up_status = 500, up_text = Some [], up_json = None :: unit option\<rparr>)
     (Some url_ok)
   = (Reply 500 (Failure ''Apple error''), [ReadFile ''/etc/sasa/merchant.pem'', Fetch req_ok])"
  by (simp add: validate_session_example up_ok_def)

text \<open>
  C4 (as amended). In the validating state, when the upstream answers with a status
  in \<open>200..299\<close> and a body \<open>t\<close>, the body is parsed and the parsed value is handed to
  \<^verbatim>\<open>res.json\<close>. If \<open>t\<close> parses, the caller gets status \<open>200\<close> and the serialisation of the
  parsed value, which is \<open>t\<close> itself only when \<open>t\<close> is already what the serialiser
  writes; the body \<open>{"ok":true}\<close> is, and comes back exactly (see the example after the
  theorem). If \<open>t\<close> does not parse, the caller gets the logged failure \<open>500\<close>.
\<close>

theorem upstream_session_returned:
  assumes "APPLE_ENABLED e" and "u \<noteq> []"
    and "MERCHANT_ID e = Some mid" and "mid \<noteq> []"
    and "MERCHANT_DOMAIN e = Some mdom" and "mdom \<noteq> []"
    and "MERCHANT_DISPLAY_NAME e = Some dn" and "dn \<noteq> []"
    and "MERCHANT_CERT_PATH e = Some path" and "path \<noteq> []"
    and "readFileSync path = Some cert"
    and "fetch (session_request u mid dn mdom cert) = Some (fetched JSON_parse st (Some t))"
    and "200 \<le> st" and "st < 300"
  shows "validate_session e readFileSync fetch (Some u) =
           (case JSON_parse t of
              None \<Rightarrow>
                (validation_failed,
                 [ReadFile path, Fetch (session_request u mid dn mdom cert), LogError])
            | Some session \<Rightarrow>
                (Reply 200 (Session session),
                 [ReadFile path, Fetch (session_request u mid dn mdom cert)]))
         \<and> (JSON_parse t = Some session \<longrightarrow>
              sent_session JSON_stringify (fst (validate_session e readFileSync fetch (Some u)))
                = Some (JSON_stringify session))"
  using assms
  by (simp add: validate_session_def fetched_def up_ok_def Let_def split: option.splits)

text \<open>The body \<open>{"ok":true}\<close> with status \<open>200\<close>: it parses to the object whose one member
  \<open>ok\<close> is true, and the text sent to the caller is \<open>{"ok":true}\<close> again.\<close>

theorem upstream_session_returned_witness:
  "APPLE_ENABLED env_ok \<and> url_ok \<noteq> [] \<and>
   MERCHANT_ID env_ok = Some ''merchant.org.sasa'' \<and>
   MERCHANT_DOMAIN env_ok = Some ''sasa.example.org'' \<and>
   MERCHANT_DISPLAY_NAME env_ok = Some ''SASA'' \<and>
   MERCHANT_CERT_PATH env_ok = Some ''/etc/sasa/merchant.pem'' \<and>
   disk_ok ''/etc/sasa/merchant.pem'' = Some ''PEM'' \<and>
   upstream_says (fetched JSON_parse_sample 200 (Some ''{\"ok\":true}'')) req_ok
     = Some (fetched JSON_parse_sample 200 (Some ''{\"ok\":true}'')) \<and>
   JSON_parse_sample ''{\"ok\":true}'' = Some (JObject [(''ok'', JBool True)]) \<and>
   validate_session env_ok disk_ok
     (upstream_says (fetched JSON_parse_sample 200 (Some ''{\"ok\":true}''))) (Some url_ok)
     = (Reply 200 (Session (JObject [(''ok'', JBool True)])),
        [ReadFile ''/etc/sasa/merchant.pem'', Fetch req_ok]) \<and>
   sent_session JSON_stringify_sample
     (fst (validate_session env_ok disk_ok
        (upstream_says (fetched JSON_parse_sample 200 (Some ''{\"ok\":true}''))) (Some url_ok)))
     = Some ''{\"ok\":true}''"
proof -
  let ?r = "fetched JSON_parse_sample 200 (Some ''{\"ok\":true}'')"
  have h1: "APPLE_ENABLED env_ok" by (simp add: APPLE_ENABLED_def env_ok_def)
  have h2: "url_ok \<noteq> []" by (simp add: url_ok_def)
  have h3: "MERCHANT_ID env_ok = Some ''merchant.org.sasa''" by (simp add: env_ok_def)
  have h4: "MERCHANT_DOMAIN env_ok = Some ''sasa.example.org''" by (simp add: env_ok_def)
  have h5: "MERCHANT_DISPLAY_NAME env_ok = Some ''SASA''" by (simp add: env_ok_def)
  have h6: "MERCHANT_CERT_PATH env_ok = Some ''/etc/sasa/merchant.pem''"
    by (simp add: env_ok_def)
  have h7: "disk_ok ''/etc/sasa/merchant.pem'' = Some ''PEM''" by (simp add: disk_ok_def)
  have h8: "upstream_says ?r
              (session_request url_ok ''merchant.org.sasa'' ''SASA'' ''sasa.example.org'' ''PEM'')
            = Some ?r"
    by (simp add: upstream_says_def req_ok_def)
  have p: "JSON_parse_sample ''{\"ok\":true}'' = Some (JObject [(''ok'', JBool True)])"
    by code_simp
  have q: "JSON_stringify_sample (JObject [(''ok'', JBool True)]) = ''{\"ok\":true}''"
    by (simp add: quoted_def)
  have "validate_session env_ok disk_ok (upstream_says ?r) (Some url_ok)
          = (Reply 200 (Session (JObject [(''ok'', JBool True)])),
             [ReadFile ''/etc/sasa/merchant.pem'', Fetch req_ok])
        \<and> sent_session JSON_stringify_sample
             (fst (validate_session env_ok disk_ok (upstream_says ?r) (Some url_ok)))
           = Some ''{\"ok\":true}''"
    using h1 h2 h3 h4 h5 h6 h7 h8 p q
      upstream_session_returned [where e = env_ok and u = url_ok and mid = "''merchant.org.sasa''"
        and mdom = "''sasa.example.org''" and dn = "''SASA''"
        and path = "''/etc/sasa/merchant.pem''" and readFileSync = disk_ok and cert = "''PEM''"
        and fetch = "upstream_says ?r" and JSON_parse = JSON_parse_sample and st = 200
        and t = "''{\"ok\":true}''" and session = "JObject [(''ok'', JBool True)]"
        and JSON_stringify = JSON_stringify_sample]
    by (simp add: req_ok_def)
  with h1 h2 h3 h4 h5 h6 h7 h8 p show ?thesis by (simp add: req_ok_def quoted_def)
qed

text \<open>
  C4 as stated fails twice. An upstream answer \<open>200\<close> whose body is the same object
  written with spaces reaches the caller without them: not the body as received. And
  an upstream answer \<open>200\<close> whose body is not JSON is not handed on at all; parsing it
  throws, and the caller gets the logged failure \<open>500\<close>.
\<close>

theorem upstream_session_counterexample:
  "sent_session JSON_stringify_sample
     (fst (validate_session env_ok disk_ok
        (upstream_says (fetched JSON_parse_sample 200 (Some ''{ \"ok\": true }'')))
        (Some url_ok)))
     = Some ''{\"ok\":true}''
   \<and> ''{\"ok\":true}'' \<noteq> ''{ \"ok\": true }''
   \<and> validate_session env_ok disk_ok
        (upstream_says (fetched JSON_parse_sample 200 (Some ''<html>OK</html>'')))
        (Some url_ok)
     = (Reply 500 (Failure ''Validation request failed.''),
        [ReadFile ''/etc/sasa/merchant.pem'', Fetch req_ok, LogError])"
proof -
  have p: "JSON_parse_sample ''{ \"ok\": true }'' = Some (JObject [(''ok'', JBool True)])"
    by code_simp
  have n: "JSON_parse_sample ''<html>OK</html>'' = None"
    by code_simp
  show ?thesis
    by (simp add: validate_session_example up_ok_def fetched_def p n quoted_def)
qed

text \<open>
  C5. While the flag is off, every request is answered \<open>501\<close> with the disabled
  message, and the route neither reads a file nor calls out.
\<close>

theorem disabled_rejects_501:
  "\<not> APPLE_ENABLED e \<Longrightarrow>
   validate_session e readFileSync fetch validationURL =
     (Reply 501 (Failure ''Apple Pay validation disabled on this server.''), [])"
  by (simp add: validate_session_def)

theorem disabled_rejects_501_witness:
  "\<not> APPLE_ENABLED (env_ok\<lparr>APPLE_PAY_ENABLED := Some ''false''\<rparr>) \<and>
   validate_session (env_ok\<lparr>APPLE_PAY_ENABLED := Some ''false''\<rparr>) disk_ok
     (upstream_says \<lparr>up_status = 200, up_text = Some ''{}'', up_json = Some ()\<rparr>) (Some url_ok)
   = (Reply 501 (Failure ''Apple Pay validation disabled on this server.''), [])"
proof -
  have h: "\<not> APPLE_ENABLED (env_ok\<lparr>APPLE_PAY_ENABLED := Some ''false''\<rparr>)"
    by (simp add: APPLE_ENABLED_def env_ok_def)
  show ?thesis using h disabled_rejects_501 [OF h] by simp
qed

text \<open>
  C6 (as amended). While the flag is on and one of the four merchant settings is
  missing or empty, the route neither reads a file nor calls out; it answers \<open>500\<close>
  with the configuration message when the request carries a non-empty
  \<open>validationURL\<close>, and \<open>400\<close> when it does not, since that check comes first.
\<close>

theorem misconfigured_rejects:
  "APPLE_ENABLED e \<Longrightarrow>
   falsy (MERCHANT_ID e) \<or> falsy (MERCHANT_DOMAIN e) \<or> falsy (MERCHANT_DISPLAY_NAME e)
     \<or> falsy (MERCHANT_CERT_PATH e) \<Longrightarrow>
   validate_session e readFileSync fetch validationURL =
     (if falsy validationURL then Reply 400 (Failure ''Missing validationURL'')
      else Reply 500 (Failure ''Merchant config missing.''), [])"
  by (auto simp: validate_session_def split: option.splits)

theorem misconfigured_rejects_witness:
  "APPLE_ENABLED (env_ok\<lparr>MERCHANT_CERT_PATH := None\<rparr>) \<and>
   falsy (MERCHANT_CERT_PATH (env_ok\<lparr>MERCHANT_CERT_PATH := None\<rparr>)) \<and>
   validate_session (env_ok\<lparr>MERCHANT_CERT_PATH := None\<rparr>) disk_ok
     (upstream_says \<lparr>up_status = 200, up_text = Some ''{}'', up_json = Some ()\<rparr>) (Some url_ok)
   = (Reply 500 (Failure ''Merchant config missing.''), [])"
proof -
  have h1: "APPLE_ENABLED (env_ok\<lparr>MERCHANT_CERT_PATH := None\<rparr>)"
    by (simp add: APPLE_ENABLED_def env_ok_def)
  have h2: "falsy (MERCHANT_CERT_PATH (env_ok\<lparr>MERCHANT_CERT_PATH := None\<rparr>))" by simp
  have h3: "falsy (MERCHANT_ID (env_ok\<lparr>MERCHANT_CERT_PATH := None\<rparr>))
      \<or> falsy (MERCHANT_DOMAIN (env_ok\<lparr>MERCHANT_CERT_PATH := None\<rparr>))
      \<or> falsy (MERCHANT_DISPLAY_NAME (env_ok\<lparr>MERCHANT_CERT_PATH := None\<rparr>))
      \<or> falsy (MERCHANT_CERT_PATH (env_ok\<lparr>MERCHANT_CERT_PATH := None\<rparr>))"
    using h2 by blast
  show ?thesis
    using h1 h2 misconfigured_rejects [OF h1 h3, of disk_ok
        "upstream_says \<lparr>up_status = 200, up_text = Some ''{}'', up_json = Some ()\<rparr>"
        "Some url_ok"]
    by (simp add: url_ok_def)
qed

text \<open>
  C6 as stated fails: with the flag on and no merchant identifier configured, a
  request without \<open>validationURL\<close> is answered \<open>400\<close>, not with the configuration error.
\<close>

theorem misconfigured_counterexample:
  "validate_session (env_ok\<lparr>MERCHANT_ID := None\<rparr>) disk_ok
     (upstream_says \<lparr>up_status = 200, up_text = Some ''{}'', up_json = Some ()\<rparr>) None
   = (Reply 400 (Failure ''Missing validationURL''), [])"
  by (simp add: validate_session_def APPLE_ENABLED_def env_ok_def)

text \<open>
  C7 (as amended). A request whose \<open>validationURL\<close> is missing or empty is rejected
  before any file is read and before any call goes out: with \<open>400\<close> while the flag is
  on, and with \<open>501\<close> while it is off, since the flag is checked first.
\<close>

theorem missing_url_rejects:
  "falsy validationURL \<Longrightarrow>
   validate_session e readFileSync fetch validationURL =
     (if APPLE_ENABLED e then Reply 400 (Failure ''Missing validationURL'')
      else Reply 501 (Failure ''Apple Pay validation disabled on this server.''), [])"
  by (cases validationURL) (auto simp: validate_session_def)

theorem missing_url_rejects_witness:
  "falsy (Some []) \<and> APPLE_ENABLED env_ok \<and>
   validate_session env_ok disk_ok
     (upstream_says \<lparr>up_status = 200, up_text = Some ''{}'', up_json = Some ()\<rparr>) (Some [])
   = (Reply 400 (Failure ''Missing validationURL''), [])"
proof -
  have h: "falsy (Some [])" by simp
  have a: "APPLE_ENABLED env_ok" by (simp add: APPLE_ENABLED_def env_ok_def)
  show ?thesis
    using h a missing_url_rejects [OF h, of env_ok disk_ok
        "upstream_says \<lparr>up_status = 200, up_text = Some ''{}'', up_json = Some ()\<rparr>"]
    by simp
qed

text \<open>
  C7 as stated fails: with the flag off, a request without \<open>validationURL\<close> is
  answered \<open>501\<close>, not with the bad-request status.
\<close>

theorem missing_url_counterexample:
  "validate_session (env_ok\<lparr>APPLE_PAY_ENABLED := None\<rparr>) disk_ok
     (upstream_says \<lparr>up_status = 200, up_text = Some ''{}'', up_json = Some ()\<rparr>) None
   = (Reply 501 (Failure ''Apple Pay validation disabled on this server.''), [])"
  by (simp add: validate_session_def APPLE_ENABLED_def env_ok_def)

end
